theory Spec2Isabelle
  imports Main "HOL-Library.Sublist"
begin

section \<open>Data model (types.ts)\<close>

text \<open>
  The configuration record of \<^verbatim>\<open>AqaraConfig\<close>. The field \<^verbatim>\<open>region\<close> is declared as a union of
  six literals, but the start-up code fills it from the environment through a cast, so it is
  a plain string here. The optional \<^verbatim>\<open>accessToken\<close> is an option.
\<close>

record AqaraConfig =
  appId :: string
  appKey :: string
  keyId :: string
  appSecret :: string
  region :: string
  accessToken :: "string option"

text \<open>
  The vendor's response envelope \<^verbatim>\<open>AqaraResponse<T>\<close>. TypeScript erases the parameter
  \<^verbatim>\<open>T\<close>; here it is the type variable of the record. Optional fields are options.
\<close>

record 'a AqaraResponse =
  code :: int
  requestId :: string
  message :: string
  msgDetails :: "string option"
  result :: "'a option"
  data :: "'a option"

text \<open>
  What the HTTP transport hands to \<^verbatim>\<open>handleAqaraResponse\<close>: an object whose \<^verbatim>\<open>data\<close> field is
  the parsed body, or is absent.
\<close>

record 'a AxiosResponse =
  response_data :: "'a AqaraResponse option"

text \<open>
  Exceptions as values. \<^verbatim>\<open>AqaraError\<close> is the class of utils.ts with its four constructor
  arguments; \<^verbatim>\<open>Error\<close> is the plain JavaScript error with its message.
\<close>

datatype error =
  AqaraError int string "string option" "string option"
| Error string

fun is_AqaraError :: "error \<Rightarrow> bool" where
  "is_AqaraError (AqaraError c m d r) = True"
| "is_AqaraError (Error m) = False"

section \<open>Envelope unwrapping (utils.ts, handleAqaraResponse)\<close>

text \<open>
  \<^verbatim>\<open>if (response.data) { ... if (code !== 0) throw new AqaraError(code, message, msgDetails,
  requestId); return response.data; } throw new Error('Invalid response format from Aqara API')\<close>.
  A body that is an envelope is an object and therefore truthy.
\<close>

definition handleAqaraResponse :: "'a AxiosResponse \<Rightarrow> error + 'a AqaraResponse" where
  "handleAqaraResponse response =
     (case response_data response of
        Some env \<Rightarrow>
          if code env \<noteq> 0
          then Inl (AqaraError (code env) (message env) (msgDetails env) (Some (requestId env)))
          else Inr env
      | None \<Rightarrow> Inl (Error ''Invalid response format from Aqara API''))"

section \<open>Region table (aqara-client.ts, getBaseURL)\<close>

text \<open>
  \<^verbatim>\<open>domains\<close> is an object literal, and \<^verbatim>\<open>domains[region]\<close> is a JavaScript property read: it
  finds the object's own properties first and then the properties every object inherits
  from \<^verbatim>\<open>Object.prototype\<close>. The value read is therefore either one of the strings of the
  table or an inherited member (a function, or for \<^verbatim>\<open>__proto__\<close> the prototype object).
\<close>

datatype js_value = JString string | JInherited string

definition domains :: "(string \<times> string) list" where
  "domains =
     [(''cn'', ''https://open-cn.aqara.com''),
      (''usa'', ''https://open-usa.aqara.com''),
      (''eu'', ''https://open-ger.aqara.com''),
      (''kr'', ''https://open-kr.aqara.com''),
      (''ru'', ''https://open-ru.aqara.com''),
      (''sg'', ''https://open-sg.aqara.com'')]"

text \<open>The property names of \<^verbatim>\<open>Object.prototype\<close> (ECMAScript, with Annex B).\<close>

definition Object_prototype_names :: "string list" where
  "Object_prototype_names =
     [''constructor'', ''hasOwnProperty'', ''isPrototypeOf'', ''propertyIsEnumerable'',
      ''toLocaleString'', ''toString'', ''valueOf'', ''__proto__'',
      ''__defineGetter__'', ''__defineSetter__'', ''__lookupGetter__'', ''__lookupSetter__'']"

text \<open>\<^verbatim>\<open>obj[key]\<close> on an object literal with string values; \<^verbatim>\<open>None\<close> is \<^verbatim>\<open>undefined\<close>.\<close>

definition get_property :: "(string \<times> string) list \<Rightarrow> string \<Rightarrow> js_value option" where
  "get_property obj k =
     (case map_of obj k of
        Some v \<Rightarrow> Some (JString v)
      | None \<Rightarrow> if k \<in> set Object_prototype_names then Some (JInherited k) else None)"

text \<open>JavaScript truthiness: the empty string is falsy, functions and objects are truthy.\<close>

fun truthy :: "js_value option \<Rightarrow> bool" where
  "truthy None = False"
| "truthy (Some (JString s)) = (s \<noteq> [])"
| "truthy (Some (JInherited k)) = True"

text \<open>\<^verbatim>\<open>return domains[region] || domains.usa;\<close>\<close>

definition getBaseURL :: "string \<Rightarrow> js_value" where
  "getBaseURL r =
     (let v = get_property domains r
      in if truthy v then the v else JString ''https://open-usa.aqara.com'')"

section \<open>Strings and numbers of the host language\<close>



text \<open>\<^verbatim>\<open>Array.prototype.join\<close> on an array of strings.\<close>

fun join :: "string \<Rightarrow> string list \<Rightarrow> string" where
  "join sep [] = []"
| "join sep [x] = x"
| "join sep (x # y # ys) = x @ sep @ join sep (y # ys)"

text \<open>
  Numbers in template literals and \<^verbatim>\<open>toString()\<close>: the numbers of this program (page numbers,
  page sizes, millisecond timestamps) are integers, printed in decimal with a minus sign.
\<close>

definition digit_char :: "nat \<Rightarrow> char" where
  "digit_char d = ''0123456789'' ! d"

fun digits :: "nat \<Rightarrow> string" where
  "digits n = (if n < 10 then [digit_char n] else digits (n div 10) @ [digit_char (n mod 10)])"

declare digits.simps [simp del]

definition numToString :: "int \<Rightarrow> string" where
  "numToString i = (if i < 0 then CHR ''-'' # digits (nat (- i)) else digits (nat i))"



text \<open>Truthiness of an optional string: \<^verbatim>\<open>undefined\<close> and the empty string are falsy.\<close>

fun truthy_string :: "string option \<Rightarrow> bool" where
  "truthy_string None = False"
| "truthy_string (Some s) = (s \<noteq> [])"

section \<open>Request signing (aqara-client.ts, signRequest)\<close>

text \<open>
  The part of an outbound request that signing touches: its header table, which may be
  absent. Other fields of the request live in the record's extension.
\<close>

record request_config =
  headers :: "(string \<rightharpoonup> string) option"




section \<open>Response cache\<close>

text \<open>
  Modelled from the spec: the cache is an instance of the node-cache package, whose code is
  not part of the repository. Its contract is the one of the specification: a mapping from
  string keys to stored responses with a time-to-live per entry; \<open>get\<close> returns the stored
  value if present and not expired and a miss otherwise, \<open>set\<close> stores or overwrites with a
  time-to-live in seconds, \<open>del\<close> removes one entry, \<open>flushAll\<close> removes all. An entry keeps
  its value \<open>v\<close> and the millisecond time \<open>t\<close> at which it expires.
\<close>

record 'v cache_entry =
  v :: 'v
  t :: int

type_synonym 'v NodeCache = "string \<rightharpoonup> 'v cache_entry"

definition cache_get :: "'v NodeCache \<Rightarrow> int \<Rightarrow> string \<Rightarrow> 'v option" where
  "cache_get c now k =
     (case c k of
        Some e \<Rightarrow> if t e < now then None else Some (v e)
      | None \<Rightarrow> None)"

definition cache_set :: "'v NodeCache \<Rightarrow> int \<Rightarrow> string \<Rightarrow> 'v \<Rightarrow> int \<Rightarrow> 'v NodeCache" where
  "cache_set c now k val ttl = c(k \<mapsto> \<lparr>v = val, t = now + ttl * 1000\<rparr>)"

definition cache_del :: "'v NodeCache \<Rightarrow> string \<Rightarrow> 'v NodeCache" where
  "cache_del c k = c(k := None)"


section \<open>Vendor API client (aqara-client.ts)\<close>

text \<open>
  The body posted to the vendor's endpoint is \<^verbatim>\<open>{intent, data}\<close>; the five shapes of \<^verbatim>\<open>data\<close>
  that the client builds are the constructors below, with the fields in the order of the
  source: \<^verbatim>\<open>{pageNum, pageSize}\<close>, \<^verbatim>\<open>{dids}\<close>, \<^verbatim>\<open>{did, resources: [{subjectId, resourceId,
  value}]}\<close>, \<^verbatim>\<open>{sceneId}\<close>, \<^verbatim>\<open>{subjectId, resourceIds, startTime, endTime, pageNum,
  pageSize}\<close>.
\<close>

datatype control_value = VString string | VNumber int | VBoolean bool

datatype request_data =
  PageQuery int int
| DeviceInfoQuery "string list"
| ResourceWrite string "(string \<times> string \<times> control_value) list"
| SceneRun string
| HistoryFetch string "string list" string string int int

record request_body =
  intent :: string
  body_data :: request_data

text \<open>
  The signed HTTP transport behind the rate limiter is the environment of the client: asked
  at a time for a request, it answers after some milliseconds (queueing in the limiter
  included) with a response, or with the error that the response interceptor raised.
\<close>

type_synonym 'a transport = "int \<Rightarrow> request_body \<Rightarrow> nat \<times> (error + 'a AxiosResponse)"

text \<open>
  The state of a client that its operations read and write: the cache, the clock
  (\<^verbatim>\<open>Date.now()\<close>, in milliseconds) and the log of the bodies posted so far. One operation
  runs at a time.
\<close>

record 'a AqaraClient =
  cache :: "'a AqaraResponse NodeCache"
  clock :: int
  sent :: "request_body list"

definition makeRequest ::
  "'a transport \<Rightarrow> string \<Rightarrow> request_data \<Rightarrow> 'a AqaraClient \<Rightarrow>
     (error + 'a AqaraResponse) \<times> 'a AqaraClient" where
  "makeRequest tr i d s =
     (let req = \<lparr>intent = i, body_data = d\<rparr>;
          (elapsed, outcome) = tr (clock s) req;
          s' = s\<lparr>clock := clock s + int elapsed, sent := sent s @ [req]\<rparr>
      in case outcome of
           Inl e \<Rightarrow> (Inl e, s')
         | Inr response \<Rightarrow> (handleAqaraResponse response, s'))"

subsection \<open>Cache keys\<close>

definition devices_key :: "int \<Rightarrow> int \<Rightarrow> string" where
  "devices_key pageNum pageSize = ''devices_'' @ numToString pageNum @ ''_'' @ numToString pageSize"

definition device_status_key :: "string \<Rightarrow> string" where
  "device_status_key deviceId = ''device_status_'' @ deviceId"

definition scenes_key :: "int \<Rightarrow> int \<Rightarrow> string" where
  "scenes_key pageNum pageSize = ''scenes_'' @ numToString pageNum @ ''_'' @ numToString pageSize"

subsection \<open>Operations\<close>

text \<open>
  The shared shape of the three cached reads: look the key up, return a hit, otherwise
  make the request, and on success store the result with the given time-to-live. A failed
  request raises before \<^verbatim>\<open>cache.set\<close> is reached. A cached value is a response object and
  therefore truthy.
\<close>

definition getDeviceList ::
  "'a transport \<Rightarrow> int \<Rightarrow> int \<Rightarrow> 'a AqaraClient \<Rightarrow> (error + 'a AqaraResponse) \<times> 'a AqaraClient" where
  "getDeviceList tr pageNum pageSize s =
     (let cacheKey = devices_key pageNum pageSize
      in case cache_get (cache s) (clock s) cacheKey of
           Some cached \<Rightarrow> (Inr cached, s)
         | None \<Rightarrow>
             (case makeRequest tr ''query.device.list'' (PageQuery pageNum pageSize) s of
                (Inl e, s') \<Rightarrow> (Inl e, s')
              | (Inr r, s') \<Rightarrow>
                  (Inr r, s'\<lparr>cache := cache_set (cache s') (clock s') cacheKey r 300\<rparr>)))"

definition getDeviceStatus ::
  "'a transport \<Rightarrow> string \<Rightarrow> 'a AqaraClient \<Rightarrow> (error + 'a AqaraResponse) \<times> 'a AqaraClient" where
  "getDeviceStatus tr deviceId s =
     (let cacheKey = device_status_key deviceId
      in case cache_get (cache s) (clock s) cacheKey of
           Some cached \<Rightarrow> (Inr cached, s)
         | None \<Rightarrow>
             (case makeRequest tr ''query.device.info'' (DeviceInfoQuery [deviceId]) s of
                (Inl e, s') \<Rightarrow> (Inl e, s')
              | (Inr r, s') \<Rightarrow>
                  (Inr r, s'\<lparr>cache := cache_set (cache s') (clock s') cacheKey r 30\<rparr>)))"

definition controlDevice ::
  "'a transport \<Rightarrow> string \<Rightarrow> string \<Rightarrow> control_value \<Rightarrow> 'a AqaraClient \<Rightarrow>
     (error + 'a AqaraResponse) \<times> 'a AqaraClient" where
  "controlDevice tr deviceId resourceId val s =
     (let cachePattern = device_status_key deviceId;
          s1 = s\<lparr>cache := cache_del (cache s) cachePattern\<rparr>
      in makeRequest tr ''write.device.resource''
           (ResourceWrite deviceId [(deviceId, resourceId, val)]) s1)"

definition getSceneList ::
  "'a transport \<Rightarrow> int \<Rightarrow> int \<Rightarrow> 'a AqaraClient \<Rightarrow> (error + 'a AqaraResponse) \<times> 'a AqaraClient" where
  "getSceneList tr pageNum pageSize s =
     (let cacheKey = scenes_key pageNum pageSize
      in case cache_get (cache s) (clock s) cacheKey of
           Some cached \<Rightarrow> (Inr cached, s)
         | None \<Rightarrow>
             (case makeRequest tr ''query.scene.list'' (PageQuery pageNum pageSize) s of
                (Inl e, s') \<Rightarrow> (Inl e, s')
              | (Inr r, s') \<Rightarrow>
                  (Inr r, s'\<lparr>cache := cache_set (cache s') (clock s') cacheKey r 600\<rparr>)))"

definition executeScene ::
  "'a transport \<Rightarrow> string \<Rightarrow> 'a AqaraClient \<Rightarrow> (error + 'a AqaraResponse) \<times> 'a AqaraClient" where
  "executeScene tr sceneId s = makeRequest tr ''config.scene.run'' (SceneRun sceneId) s"

definition getDeviceHistory ::
  "'a transport \<Rightarrow> string \<Rightarrow> string \<Rightarrow> string \<Rightarrow> string \<Rightarrow> int \<Rightarrow> int \<Rightarrow> 'a AqaraClient \<Rightarrow>
     (error + 'a AqaraResponse) \<times> 'a AqaraClient" where
  "getDeviceHistory tr deviceId resourceId startTime endTime pageNum pageSize s =
     makeRequest tr ''fetch.device.history''
       (HistoryFetch deviceId [resourceId] startTime endTime pageNum pageSize) s"


subsection \<open>Client-side filters\<close>

record ResourceInfo =
  resourceId :: string
  resourceName :: string
  access :: "string list"
  unit :: "string option"
  description :: "string option"

record Device =
  did :: string
  uid :: string
  name :: string
  model :: string
  modelType :: int
  online :: bool
  firmwareVersion :: string
  createTime :: int
  updateTime :: int
  resourceInfo :: "ResourceInfo list option"

text \<open>\<^verbatim>\<open>response.data || response.result || []\<close>; an array, even an empty one, is truthy.\<close>

definition extract_devices :: "Device list AqaraResponse \<Rightarrow> Device list" where
  "extract_devices response =
     (case data response of
        Some d \<Rightarrow> d
      | None \<Rightarrow> (case result response of Some r \<Rightarrow> r | None \<Rightarrow> []))"

definition getDevicesByType ::
  "Device list transport \<Rightarrow> int option \<Rightarrow> Device list AqaraClient \<Rightarrow>
     (error + Device list) \<times> Device list AqaraClient" where
  "getDevicesByType tr mt s =
     (case getDeviceList tr 1 100 s of
        (Inl e, s') \<Rightarrow> (Inl e, s')
      | (Inr response, s') \<Rightarrow>
          (let devices = extract_devices response
           in case mt of
                Some m \<Rightarrow> (Inr (filter (\<lambda>device. modelType device = m) devices), s')
              | None \<Rightarrow> (Inr devices, s')))"

definition getOnlineDevices ::
  "Device list transport \<Rightarrow> Device list AqaraClient \<Rightarrow>
     (error + Device list) \<times> Device list AqaraClient" where
  "getOnlineDevices tr s =
     (case getDevicesByType tr None s of
        (Inl e, s') \<Rightarrow> (Inl e, s')
      | (Inr devices, s') \<Rightarrow> (Inr (filter (\<lambda>device. online device) devices), s'))"

section \<open>Start-up validation (utils.ts, validateEnvironment; server start-up)\<close>

definition requiredEnvVars :: "string list" where
  "requiredEnvVars = [''AQARA_APP_ID'', ''AQARA_APP_KEY'', ''AQARA_KEY_ID'', ''AQARA_APP_SECRET'']"

text \<open>
  \<^verbatim>\<open>process.env\<close> is a map from names to strings. \<^verbatim>\<open>!process.env[envVar]\<close> holds for a variable
  that is unset or set to the empty string.
\<close>

definition validateEnvironment :: "(string \<rightharpoonup> string) \<Rightarrow> error + unit" where
  "validateEnvironment env =
     (let missing = filter (\<lambda>envVar. \<not> truthy_string (env envVar)) requiredEnvVars
      in if length missing > 0
         then Inl (Error (''Missing required environment variables: '' @ join '', '' missing @ ''. '' @
                ''Please check your .env file and ensure all Aqara API credentials are provided.''))
         else Inr ())"

text \<open>
  The start of the server module: validation, and on failure the message is printed and the
  process exits with status 1; otherwise the configuration is read from the environment
  (the four mandatory variables are then set) and the server goes on.
\<close>

datatype startup = Exited int string | Started AqaraConfig

fun error_message :: "error \<Rightarrow> string" where
  "error_message (AqaraError c m d r) = m"
| "error_message (Error m) = m"

definition main :: "(string \<rightharpoonup> string) \<Rightarrow> startup" where
  "main env =
     (case validateEnvironment env of
        Inl e \<Rightarrow> Exited 1 (error_message e)
      | Inr u \<Rightarrow>
          Started \<lparr>appId = the (env ''AQARA_APP_ID''), appKey = the (env ''AQARA_APP_KEY''),
                   keyId = the (env ''AQARA_KEY_ID''), appSecret = the (env ''AQARA_APP_SECRET''),
                   region = (if truthy_string (env ''AQARA_REGION'') then the (env ''AQARA_REGION'')
                             else ''usa''),
                   accessToken = env ''AQARA_ACCESS_TOKEN''\<rparr>)"

section \<open>Dates of the host language\<close>




definition DaysInYear :: "int \<Rightarrow> int" where
  "DaysInYear y =
     (if y mod 4 \<noteq> 0 then 365 else if y mod 100 \<noteq> 0 then 366 else if y mod 400 \<noteq> 0 then 365
      else 366)"



























section \<open>History queries (utils.ts, parseTimeString and formatError; the get_device_history tool)\<close>




text \<open>
  The \<^verbatim>\<open>execute\<close> function of the tool \<^verbatim>\<open>get_device_history\<close>. Its result is a text: on failure
  the formatted error (\<open>Inl\<close>), on success the JSON text of an object with the fields
  below (\<open>Inr\<close>); its fields \<^verbatim>\<open>deviceId\<close>, \<^verbatim>\<open>resourceId\<close> and \<^verbatim>\<open>result\<close> are \<open>result_deviceId\<close>,
  \<open>result_resourceId\<close> and \<open>history\<close> here.
\<close>

record history_args =
  deviceId :: string
  resourceId :: string
  startTime :: string
  endTime :: string
  pageNum :: int
  pageSize :: int



section \<open>Sequences of client calls\<close>




section \<open>Successful calls and sample inputs\<close>

text \<open>
  A remote call for a body succeeds when the transport answers it, after \<open>elapsed\<close>
  milliseconds, with an envelope of code 0.
\<close>

definition succeeds ::
  "'a transport \<Rightarrow> 'a AqaraClient \<Rightarrow> string \<Rightarrow> request_data \<Rightarrow> nat \<Rightarrow> 'a AqaraResponse \<Rightarrow> bool" where
  "succeeds tr s i d elapsed env =
     (case tr (clock s) \<lparr>intent = i, body_data = d\<rparr> of
        (e, Inr response) \<Rightarrow> e = elapsed \<and> response_data response = Some env \<and> code env = 0
      | (e, Inl err) \<Rightarrow> False)"


definition sample_ok :: "string AqaraResponse" where
  "sample_ok = \<lparr>code = 0, requestId = ''req-1'', message = ''Success'', msgDetails = None,
                 result = Some ''[]'', data = None\<rparr>"

definition sample_rejected :: "string AqaraResponse" where
  "sample_rejected = \<lparr>code = 108, requestId = ''req-2'', message = ''Token expired'',
                       msgDetails = Some ''refresh the token'', result = None, data = None\<rparr>"

definition sample_client :: "string AqaraClient" where
  "sample_client = \<lparr>cache = Map.empty, clock = 1000, sent = []\<rparr>"






definition sample_transport :: "string transport" where
  "sample_transport now req = (50, Inr \<lparr>response_data = Some sample_ok\<rparr>)"

definition lamp :: Device where
  "lamp = \<lparr>did = ''lumi.1'', uid = ''u1'', name = ''Lamp'', model = ''lumi.light'', modelType = 2,
           online = True, firmwareVersion = ''1.0'', createTime = 1, updateTime = 2,
           resourceInfo = None\<rparr>"

definition sensor :: Device where
  "sensor = \<lparr>did = ''lumi.2'', uid = ''u1'', name = ''Door'', model = ''lumi.magnet'', modelType = 3,
           online = False, firmwareVersion = ''1.1'', createTime = 3, updateTime = 4,
           resourceInfo = None\<rparr>"

definition device_envelope :: "Device list AqaraResponse" where
  "device_envelope = \<lparr>code = 0, requestId = ''req-3'', message = ''Success'', msgDetails = None,
                       result = Some [lamp, sensor], data = None\<rparr>"

definition device_transport :: "Device list transport" where
  "device_transport now req = (20, Inr \<lparr>response_data = Some device_envelope\<rparr>)"

definition device_client :: "Device list AqaraClient" where
  "device_client = \<lparr>cache = Map.empty, clock = 0, sent = []\<rparr>"

definition partial_env :: "string \<rightharpoonup> string" where
  "partial_env = [''AQARA_APP_ID'' \<mapsto> ''app'', ''AQARA_KEY_ID'' \<mapsto> [], ''AQARA_APP_SECRET'' \<mapsto> ''s'']"

definition full_env :: "string \<rightharpoonup> string" where
  "full_env = [''AQARA_APP_ID'' \<mapsto> ''app'', ''AQARA_APP_KEY'' \<mapsto> ''key'', ''AQARA_KEY_ID'' \<mapsto> ''kid'',
               ''AQARA_APP_SECRET'' \<mapsto> ''s'']"

section \<open>Properties\<close>

subsection \<open>Evaluation of the host-language helpers\<close>

lemma numToString_simps:
  "numToString 1 = ''1''" "numToString 30 = ''30''" "numToString 100 = ''100''"
  by (simp_all add: numToString_def digits.simps digit_char_def)

subsection \<open>Request signing\<close>



subsection \<open>Envelope unwrapping\<close>

text \<open>
  Claim C2. When the transport's response has a body, an envelope of code 0 is returned as
  it is (so its \<^verbatim>\<open>result\<close> and \<^verbatim>\<open>data\<close> are passed through unchanged), and an envelope of another
  code raises an \<^verbatim>\<open>AqaraError\<close> with that code, message, details and request id. When the
  response has no body, the error raised is not an \<^verbatim>\<open>AqaraError\<close>.
\<close>

theorem handleAqaraResponse_envelope:
  "(response_data response = Some env \<and> code env = 0 \<longrightarrow>
      handleAqaraResponse response = Inr env) \<and>
   (response_data response = Some env \<and> code env \<noteq> 0 \<longrightarrow>
      handleAqaraResponse response =
        Inl (AqaraError (code env) (message env) (msgDetails env) (Some (requestId env)))) \<and>
   (response_data response = None \<longrightarrow>
      (\<exists>e. handleAqaraResponse response = Inl e \<and> \<not> is_AqaraError e))"
  by (simp add: handleAqaraResponse_def)

theorem handleAqaraResponse_envelope_witness:
  "handleAqaraResponse \<lparr>response_data = Some sample_ok\<rparr> = Inr sample_ok \<and>
   handleAqaraResponse \<lparr>response_data = Some sample_rejected\<rparr> =
     Inl (AqaraError 108 ''Token expired'' (Some ''refresh the token'') (Some ''req-2'')) \<and>
   (\<exists>e. handleAqaraResponse (\<lparr>response_data = None\<rparr> :: string AxiosResponse) = Inl e \<and>
        \<not> is_AqaraError e)"
  using handleAqaraResponse_envelope [of "\<lparr>response_data = Some sample_ok\<rparr>" sample_ok]
    handleAqaraResponse_envelope [of "\<lparr>response_data = Some sample_rejected\<rparr>" sample_rejected]
    handleAqaraResponse_envelope [of "\<lparr>response_data = None\<rparr> :: string AxiosResponse" sample_ok]
  by (simp add: sample_ok_def sample_rejected_def)

subsection \<open>Region table\<close>

lemma getBaseURL_table:
  "getBaseURL ''cn'' = JString ''https://open-cn.aqara.com'' \<and>
   getBaseURL ''usa'' = JString ''https://open-usa.aqara.com'' \<and>
   getBaseURL ''eu'' = JString ''https://open-ger.aqara.com'' \<and>
   getBaseURL ''kr'' = JString ''https://open-kr.aqara.com'' \<and>
   getBaseURL ''ru'' = JString ''https://open-ru.aqara.com'' \<and>
   getBaseURL ''sg'' = JString ''https://open-sg.aqara.com''"
  by (simp add: getBaseURL_def get_property_def domains_def)

lemma getBaseURL_distinct:
  "distinct (map getBaseURL [''cn'', ''usa'', ''eu'', ''kr'', ''ru'', ''sg''])"
  by (simp add: getBaseURL_def get_property_def domains_def)

lemma getBaseURL_fallback:
  "r \<notin> set (map fst domains) \<Longrightarrow> r \<notin> set Object_prototype_names \<Longrightarrow>
     getBaseURL r = getBaseURL ''usa''"
  by (simp add: getBaseURL_def get_property_def domains_def)

text \<open>
  Claim C8. The six regions have six different URLs, and a region that is neither in the
  table nor the name of a member of \<^verbatim>\<open>Object.prototype\<close> gets the URL of \<^verbatim>\<open>usa\<close> (the three
  lemmas above). The claim fails for the region string \<^verbatim>\<open>constructor\<close>, which is outside
  the table: the property read finds the inherited member, which is truthy, and returns it
  instead of the URL of \<^verbatim>\<open>usa\<close>.
\<close>

theorem getBaseURL_constructor:
  "''constructor'' \<notin> set (map fst domains) \<and>
   getBaseURL ''constructor'' = JInherited ''constructor'' \<and>
   getBaseURL ''constructor'' \<noteq> getBaseURL ''usa''"
  by (simp add: getBaseURL_def get_property_def domains_def Object_prototype_names_def)

subsection \<open>Requests and the cache\<close>

lemma makeRequest_succeeds:
  "succeeds tr s i d elapsed env \<Longrightarrow>
     makeRequest tr i d s =
       (Inr env, s\<lparr>clock := clock s + int elapsed, sent := sent s @ [\<lparr>intent = i, body_data = d\<rparr>]\<rparr>)"
  by (auto simp: succeeds_def makeRequest_def handleAqaraResponse_def split: prod.splits sum.splits)

lemma makeRequest_cache: "cache (snd (makeRequest tr i d s)) = cache s"
  by (simp add: makeRequest_def Let_def split: prod.splits sum.splits)


lemma getDeviceList_stores:
  assumes "cache_get (cache s) (clock s) (devices_key p n) = None"
    and "succeeds tr s ''query.device.list'' (PageQuery p n) elapsed env"
  shows "getDeviceList tr p n s =
           (Inr env, s\<lparr>clock := clock s + int elapsed,
                 sent := sent s @ [\<lparr>intent = ''query.device.list'', body_data = PageQuery p n\<rparr>],
                 cache := (cache s)(devices_key p n \<mapsto>
                            \<lparr>v = env, t = clock s + int elapsed + 300 * 1000\<rparr>)\<rparr>)"
  using assms(1) makeRequest_succeeds [OF assms(2)]
  by (simp add: getDeviceList_def cache_set_def)

lemma getDeviceStatus_stores:
  assumes "cache_get (cache s) (clock s) (device_status_key d) = None"
    and "succeeds tr s ''query.device.info'' (DeviceInfoQuery [d]) elapsed env"
  shows "getDeviceStatus tr d s =
           (Inr env, s\<lparr>clock := clock s + int elapsed,
                 sent := sent s @ [\<lparr>intent = ''query.device.info'', body_data = DeviceInfoQuery [d]\<rparr>],
                 cache := (cache s)(device_status_key d \<mapsto>
                            \<lparr>v = env, t = clock s + int elapsed + 30 * 1000\<rparr>)\<rparr>)"
  using assms(1) makeRequest_succeeds [OF assms(2)]
  by (simp add: getDeviceStatus_def cache_set_def)

lemma getSceneList_stores:
  assumes "cache_get (cache s) (clock s) (scenes_key p n) = None"
    and "succeeds tr s ''query.scene.list'' (PageQuery p n) elapsed env"
  shows "getSceneList tr p n s =
           (Inr env, s\<lparr>clock := clock s + int elapsed,
                 sent := sent s @ [\<lparr>intent = ''query.scene.list'', body_data = PageQuery p n\<rparr>],
                 cache := (cache s)(scenes_key p n \<mapsto>
                            \<lparr>v = env, t = clock s + int elapsed + 600 * 1000\<rparr>)\<rparr>)"
  using assms(1) makeRequest_succeeds [OF assms(2)]
  by (simp add: getSceneList_def cache_set_def)

lemma controlDevice_cache:
  "cache (snd (controlDevice tr d r val s)) = (cache s)(device_status_key d := None)"
  by (simp add: controlDevice_def makeRequest_cache cache_del_def)

lemma executeScene_cache: "cache (snd (executeScene tr i s)) = cache s"
  by (simp add: executeScene_def makeRequest_cache)

lemma getDeviceHistory_cache: "cache (snd (getDeviceHistory tr d r st en p n s)) = cache s"
  by (simp add: getDeviceHistory_def makeRequest_cache)

lemma sample_succeeds: "succeeds sample_transport sample_client i d 50 sample_ok"
  by (simp add: succeeds_def sample_transport_def sample_ok_def)

lemma sample_miss: "cache_get (cache sample_client) (clock sample_client) k = None"
  by (simp add: cache_get_def sample_client_def)

text \<open>
  Claim C6. After a miss and a successful remote call, the list of devices is stored under
  its key with an expiry 300 seconds after the time of storing, the status of a device
  with 30 seconds and the list of scenes with 600 seconds: the entry is served up to that
  time and not after it. A history fetch and a scene execution leave the cache as it was,
  and a device control only removes an entry.
\<close>

theorem ttl_policy:
  "(cache_get (cache s) (clock s) (devices_key p n) = None \<and>
    succeeds tr s ''query.device.list'' (PageQuery p n) elapsed env \<longrightarrow>
      (let s' = snd (getDeviceList tr p n s)
       in fst (getDeviceList tr p n s) = Inr env \<and>
          cache s' = (cache s)(devices_key p n \<mapsto> \<lparr>v = env, t = clock s' + 300 * 1000\<rparr>) \<and>
          (\<forall>now. cache_get (cache s') now (devices_key p n) =
                   (if now \<le> clock s' + 300 * 1000 then Some env else None)))) \<and>
   (cache_get (cache s) (clock s) (device_status_key d) = None \<and>
    succeeds tr s ''query.device.info'' (DeviceInfoQuery [d]) elapsed env \<longrightarrow>
      (let s' = snd (getDeviceStatus tr d s)
       in fst (getDeviceStatus tr d s) = Inr env \<and>
          cache s' = (cache s)(device_status_key d \<mapsto> \<lparr>v = env, t = clock s' + 30 * 1000\<rparr>) \<and>
          (\<forall>now. cache_get (cache s') now (device_status_key d) =
                   (if now \<le> clock s' + 30 * 1000 then Some env else None)))) \<and>
   (cache_get (cache s) (clock s) (scenes_key p n) = None \<and>
    succeeds tr s ''query.scene.list'' (PageQuery p n) elapsed env \<longrightarrow>
      (let s' = snd (getSceneList tr p n s)
       in fst (getSceneList tr p n s) = Inr env \<and>
          cache s' = (cache s)(scenes_key p n \<mapsto> \<lparr>v = env, t = clock s' + 600 * 1000\<rparr>) \<and>
          (\<forall>now. cache_get (cache s') now (scenes_key p n) =
                   (if now \<le> clock s' + 600 * 1000 then Some env else None)))) \<and>
   cache (snd (getDeviceHistory tr d r st en p n s)) = cache s \<and>
   cache (snd (executeScene tr i s)) = cache s \<and>
   cache (snd (controlDevice tr d r val s)) = (cache s)(device_status_key d := None)"
proof (intro conjI impI)
  assume a: "cache_get (cache s) (clock s) (devices_key p n) = None \<and>
    succeeds tr s ''query.device.list'' (PageQuery p n) elapsed env"
  show "let s' = snd (getDeviceList tr p n s)
       in fst (getDeviceList tr p n s) = Inr env \<and>
          cache s' = (cache s)(devices_key p n \<mapsto> \<lparr>v = env, t = clock s' + 300 * 1000\<rparr>) \<and>
          (\<forall>now. cache_get (cache s') now (devices_key p n) =
                   (if now \<le> clock s' + 300 * 1000 then Some env else None))"
    using getDeviceList_stores [of s p n tr elapsed env] a
    by (auto simp: cache_get_def)
next
  assume a: "cache_get (cache s) (clock s) (device_status_key d) = None \<and>
    succeeds tr s ''query.device.info'' (DeviceInfoQuery [d]) elapsed env"
  show "let s' = snd (getDeviceStatus tr d s)
       in fst (getDeviceStatus tr d s) = Inr env \<and>
          cache s' = (cache s)(device_status_key d \<mapsto> \<lparr>v = env, t = clock s' + 30 * 1000\<rparr>) \<and>
          (\<forall>now. cache_get (cache s') now (device_status_key d) =
                   (if now \<le> clock s' + 30 * 1000 then Some env else None))"
    using getDeviceStatus_stores [of s d tr elapsed env] a
    by (auto simp: cache_get_def)
next
  assume a: "cache_get (cache s) (clock s) (scenes_key p n) = None \<and>
    succeeds tr s ''query.scene.list'' (PageQuery p n) elapsed env"
  show "let s' = snd (getSceneList tr p n s)
       in fst (getSceneList tr p n s) = Inr env \<and>
          cache s' = (cache s)(scenes_key p n \<mapsto> \<lparr>v = env, t = clock s' + 600 * 1000\<rparr>) \<and>
          (\<forall>now. cache_get (cache s') now (scenes_key p n) =
                   (if now \<le> clock s' + 600 * 1000 then Some env else None))"
    using getSceneList_stores [of s p n tr elapsed env] a
    by (auto simp: cache_get_def)
qed (rule getDeviceHistory_cache executeScene_cache controlDevice_cache)+

theorem ttl_policy_witness:
  "cache_get (cache sample_client) (clock sample_client) (devices_key 1 30) = None \<and>
   succeeds sample_transport sample_client ''query.device.list'' (PageQuery 1 30) 50 sample_ok \<and>
   cache (snd (getDeviceList sample_transport 1 30 sample_client)) =
     [''devices_1_30'' \<mapsto> \<lparr>v = sample_ok, t = 301050\<rparr>] \<and>
   cache_get (cache sample_client) (clock sample_client) (device_status_key ''lumi.1'') = None \<and>
   succeeds sample_transport sample_client ''query.device.info'' (DeviceInfoQuery [''lumi.1'']) 50
     sample_ok \<and>
   cache (snd (getDeviceStatus sample_transport ''lumi.1'' sample_client)) =
     [''device_status_lumi.1'' \<mapsto> \<lparr>v = sample_ok, t = 31050\<rparr>] \<and>
   cache_get (cache sample_client) (clock sample_client) (scenes_key 1 30) = None \<and>
   succeeds sample_transport sample_client ''query.scene.list'' (PageQuery 1 30) 50 sample_ok \<and>
   cache (snd (getSceneList sample_transport 1 30 sample_client)) =
     [''scenes_1_30'' \<mapsto> \<lparr>v = sample_ok, t = 601050\<rparr>]"
proof -
  have mr: "makeRequest sample_transport i d sample_client =
      (Inr sample_ok, sample_client\<lparr>clock := 1050, sent := [\<lparr>intent = i, body_data = d\<rparr>]\<rparr>)"
    for i d
    by (simp add: makeRequest_def sample_transport_def handleAqaraResponse_def sample_ok_def
        sample_client_def)
  have clk: "clock (snd (getDeviceList sample_transport 1 30 sample_client)) = 1050"
    "clock (snd (getDeviceStatus sample_transport ''lumi.1'' sample_client)) = 1050"
    "clock (snd (getSceneList sample_transport 1 30 sample_client)) = 1050"
    by (simp_all add: getDeviceList_def getDeviceStatus_def getSceneList_def sample_miss mr)
  have c0: "cache sample_client = Map.empty"
    by (simp add: sample_client_def)
  show ?thesis
    using ttl_policy [of sample_client 1 30 sample_transport 50 sample_ok "''lumi.1''"]
      sample_miss sample_succeeds clk c0
    by (simp add: Let_def devices_key_def scenes_key_def device_status_key_def numToString_simps)
qed

subsection \<open>Client-side filters\<close>

text \<open>
  Claim C9. From the envelope that the fetch of the first 100 devices returns, the device
  list is the \<^verbatim>\<open>data\<close> field if present, else the \<^verbatim>\<open>result\<close> field, else empty.
  \<^verbatim>\<open>getDevicesByType\<close> returns the devices of that list with the given model type, all of them
  when no type is given, and \<^verbatim>\<open>getOnlineDevices\<close> those that are online; the state after
  either is the state after the list fetch, whose log has at most one more request.
\<close>

theorem getDevicesByType_filter:
  assumes "getDeviceList tr 1 100 s = (Inr response, s')"
  shows "(\<forall>d. data response = Some d \<longrightarrow> extract_devices response = d) \<and>
         (\<forall>r. data response = None \<and> result response = Some r \<longrightarrow> extract_devices response = r) \<and>
         (data response = None \<and> result response = None \<longrightarrow> extract_devices response = []) \<and>
         getDevicesByType tr (Some m) s =
           (Inr (filter (\<lambda>device. modelType device = m) (extract_devices response)), s') \<and>
         getDevicesByType tr None s = (Inr (extract_devices response), s') \<and>
         getOnlineDevices tr s = (Inr (filter online (extract_devices response)), s') \<and>
         (sent s' = sent s \<or>
          sent s' = sent s @ [\<lparr>intent = ''query.device.list'', body_data = PageQuery 1 100\<rparr>])"
proof -
  have log: "sent s' = sent s \<or>
          sent s' = sent s @ [\<lparr>intent = ''query.device.list'', body_data = PageQuery 1 100\<rparr>]"
    using assms
    by (auto simp: getDeviceList_def makeRequest_def Let_def
        split: option.splits sum.splits prod.splits)
  show ?thesis
    using assms log by (simp add: getDevicesByType_def getOnlineDevices_def extract_devices_def)
qed

theorem getDevicesByType_filter_witness:
  "getDeviceList device_transport 1 100 device_client =
     (Inr device_envelope,
      \<lparr>cache = [''devices_1_100'' \<mapsto> \<lparr>v = device_envelope, t = 300020\<rparr>], clock = 20,
       sent = [\<lparr>intent = ''query.device.list'', body_data = PageQuery 1 100\<rparr>]\<rparr>) \<and>
   getDevicesByType device_transport (Some 3) device_client =
     (Inr [sensor],
      \<lparr>cache = [''devices_1_100'' \<mapsto> \<lparr>v = device_envelope, t = 300020\<rparr>], clock = 20,
       sent = [\<lparr>intent = ''query.device.list'', body_data = PageQuery 1 100\<rparr>]\<rparr>) \<and>
   getOnlineDevices device_transport device_client =
     (Inr [lamp],
      \<lparr>cache = [''devices_1_100'' \<mapsto> \<lparr>v = device_envelope, t = 300020\<rparr>], clock = 20,
       sent = [\<lparr>intent = ''query.device.list'', body_data = PageQuery 1 100\<rparr>]\<rparr>)"
proof -
  have h: "getDeviceList device_transport 1 100 device_client =
     (Inr device_envelope,
      \<lparr>cache = [''devices_1_100'' \<mapsto> \<lparr>v = device_envelope, t = 300020\<rparr>], clock = 20,
       sent = [\<lparr>intent = ''query.device.list'', body_data = PageQuery 1 100\<rparr>]\<rparr>)"
    by (simp add: getDeviceList_def cache_get_def cache_set_def device_client_def
        makeRequest_def device_transport_def handleAqaraResponse_def device_envelope_def
        devices_key_def numToString_simps)
  show ?thesis
    using h getDevicesByType_filter [OF h, of 3]
    by (simp add: extract_devices_def device_envelope_def lamp_def sensor_def)
qed

subsection \<open>Start-up validation\<close>

lemma validateEnvironment_ok:
  "validateEnvironment env = Inr () \<longleftrightarrow> (\<forall>x\<in>set requiredEnvVars. truthy_string (env x))"
  by (auto simp: validateEnvironment_def requiredEnvVars_def Let_def)

lemma validateEnvironment_message:
  "\<exists>x\<in>set requiredEnvVars. \<not> truthy_string (env x) \<Longrightarrow>
     \<exists>m. validateEnvironment env = Inl (Error m) \<and>
       (\<forall>y\<in>set requiredEnvVars. sublist y m \<longleftrightarrow> \<not> truthy_string (env y))"
  unfolding validateEnvironment_def requiredEnvVars_def Let_def
  by (cases "truthy_string (env ''AQARA_APP_ID'')"; cases "truthy_string (env ''AQARA_APP_KEY'')";
      cases "truthy_string (env ''AQARA_KEY_ID'')"; cases "truthy_string (env ''AQARA_APP_SECRET'')";
      simp add: sublist_Cons_right)

text \<open>
  Claim C7. Validation passes exactly when each of the four mandatory variables is set to
  a non-empty string, and the server then starts with a configuration. Otherwise
  validation raises an error, the process exits with status 1 and prints the error's
  message, and the name of a mandatory variable occurs in that message if and only if
  this variable is missing (unset or empty).
\<close>

theorem validateEnvironment_names_missing:
  "(validateEnvironment env = Inr () \<longleftrightarrow> (\<forall>x\<in>set requiredEnvVars. truthy_string (env x))) \<and>
   ((\<forall>x\<in>set requiredEnvVars. truthy_string (env x)) \<longrightarrow> (\<exists>config. main env = Started config)) \<and>
   ((\<exists>x\<in>set requiredEnvVars. \<not> truthy_string (env x)) \<longrightarrow>
      (\<exists>m. validateEnvironment env = Inl (Error m) \<and> main env = Exited 1 m \<and>
           (\<forall>y\<in>set requiredEnvVars. sublist y m \<longleftrightarrow> \<not> truthy_string (env y))))"
proof (intro conjI impI)
  show "validateEnvironment env = Inr () \<longleftrightarrow> (\<forall>x\<in>set requiredEnvVars. truthy_string (env x))"
    by (rule validateEnvironment_ok)
next
  assume "\<forall>x\<in>set requiredEnvVars. truthy_string (env x)"
  then have "validateEnvironment env = Inr ()"
    by (simp add: validateEnvironment_ok)
  then show "\<exists>config. main env = Started config"
    by (simp add: main_def)
next
  assume "\<exists>x\<in>set requiredEnvVars. \<not> truthy_string (env x)"
  from validateEnvironment_message [OF this]
  obtain m where m: "validateEnvironment env = Inl (Error m)"
    "\<forall>y\<in>set requiredEnvVars. sublist y m \<longleftrightarrow> \<not> truthy_string (env y)"
    by blast
  then have "main env = Exited 1 m"
    by (simp add: main_def)
  with m show "\<exists>m. validateEnvironment env = Inl (Error m) \<and> main env = Exited 1 m \<and>
           (\<forall>y\<in>set requiredEnvVars. sublist y m \<longleftrightarrow> \<not> truthy_string (env y))"
    by blast
qed

theorem validateEnvironment_names_missing_witness:
  "\<not> truthy_string (partial_env ''AQARA_APP_KEY'') \<and>
   main partial_env =
     Exited 1 (''Missing required environment variables: AQARA_APP_KEY, AQARA_KEY_ID. '' @
               ''Please check your .env file and ensure all Aqara API credentials are provided.'') \<and>
   truthy_string (full_env ''AQARA_APP_ID'') \<and> truthy_string (full_env ''AQARA_APP_KEY'') \<and>
   truthy_string (full_env ''AQARA_KEY_ID'') \<and> truthy_string (full_env ''AQARA_APP_SECRET'') \<and>
   validateEnvironment full_env = Inr ()"
proof -
  have 1: "\<exists>x\<in>set requiredEnvVars. \<not> truthy_string (partial_env x)"
    by (simp add: requiredEnvVars_def partial_env_def)
  have 2: "\<forall>x\<in>set requiredEnvVars. truthy_string (full_env x)"
    by (simp add: requiredEnvVars_def full_env_def)
  have 3: "validateEnvironment partial_env =
     Inl (Error (''Missing required environment variables: AQARA_APP_KEY, AQARA_KEY_ID. '' @
               ''Please check your .env file and ensure all Aqara API credentials are provided.''))"
    by (simp add: validateEnvironment_def requiredEnvVars_def partial_env_def)
  have 4: "\<not> truthy_string (partial_env ''AQARA_APP_KEY'')"
    by (simp add: partial_env_def)
  show ?thesis
    using 1 2 3 4 validateEnvironment_names_missing [of partial_env]
      validateEnvironment_names_missing [of full_env]
    by (auto simp: requiredEnvVars_def)
qed

subsection \<open>Cache keys\<close>















subsection \<open>Frames of the operations and invalidation\<close>





















subsection \<open>Printing and reading numbers\<close>







subsection \<open>Calendar fields of a time value\<close>








lemma DaysInYear_bounds: "365 \<le> DaysInYear y" "DaysInYear y \<le> 366"
  by (simp_all add: DaysInYear_def)










subsection \<open>Reading back a printed date\<close>






subsection \<open>History queries\<close>

















end
